theory Spec2Isabelle
  imports Main "HOL-Library.Sublist"
begin

section \<open>The FAQ service of \<open>app.py\<close>\<close>

text \<open>
  \<open>app.py\<close> is a Flask application with one helper (\<open>load_faq_data\<close>), three view
  functions (\<open>health_check\<close>, \<open>get_all_faq\<close>, \<open>get_specific_faq\<close>) and three error
  handlers (\<open>not_found_error\<close>, \<open>internal_error\<close>, \<open>method_not_allowed_error\<close>).
  The embedding follows it function by function. What Python and Flask do around these
  functions is written out where the functions depend on it: exceptions are values of
  a sum type, \<open>abort\<close> raises an \<open>HTTPException\<close> (a subclass of Python's \<open>Exception\<close>),
  log lines are collected in a list, and the dispatch of a request to a view or to an
  error handler is a function of the method and the path.
\<close>

subsection \<open>JSON values\<close>

text \<open>
  What \<open>json.load\<close> returns and \<open>jsonify\<close> accepts: \<open>None\<close>, \<open>bool\<close>, \<open>int\<close>, \<open>float\<close>,
  \<open>str\<close>, \<open>list\<close> and \<open>dict\<close> with string keys. Floating-point numbers are kept opaque.
  A \<open>dict\<close> is the list of its items in insertion order; a key is looked up with
  \<open>map_of\<close>.
\<close>

typedecl py_float

datatype json =
    JNull
  | JBool bool
  | JInt int
  | JFloat py_float
  | JStr string
  | JArr "json list"
  | JObj "(string \<times> json) list"

definition is_object :: "json \<Rightarrow> bool" where
  "is_object j = (case j of JObj d \<Rightarrow> True | _ \<Rightarrow> False)"

subsection \<open>Exceptions and the log\<close>

text \<open>
  \<open>HTTPException code description\<close> is what \<open>abort(code, description=...)\<close> and the URL
  map raise; \<open>TypeError\<close> and \<open>KeyError\<close> are the exceptions of Python's \<open>in\<close> and
  subscript on the values above. All of them are instances of \<open>Exception\<close>.
\<close>

datatype exc =
    HTTPException nat string
  | TypeError string
  | KeyError string

type_synonym log = "string list"

definition abort :: "nat \<Rightarrow> string \<Rightarrow> exc + 'a" where
  "abort code description = Inl (HTTPException code description)"

text \<open>\<open>str(e)\<close>: Werkzeug prints an \<open>HTTPException\<close> as \<open>code name: description\<close>.\<close>

definition status_line :: "nat \<Rightarrow> string" where
  "status_line code =
     (if code = 500 then ''500 Internal Server Error''
      else if code = 404 then ''404 Not Found''
      else if code = 405 then ''405 Method Not Allowed''
      else ''??? Unknown Error'')"

definition str_exc :: "exc \<Rightarrow> string" where
  "str_exc e = (case e of
      HTTPException code description \<Rightarrow> status_line code @ '': '' @ description
    | TypeError msg \<Rightarrow> msg
    | KeyError msg \<Rightarrow> msg)"

subsection \<open>The data file\<close>

text \<open>
  \<open>load_faq_data\<close> reads the file system three times: \<open>os.path.exists\<close>, \<open>open\<close> and
  \<open>json.load\<close>. \<open>Absent\<close> is the state in which \<open>os.path.exists\<close> is false; otherwise
  the state says how the \<open>try\<close> block ends: \<open>json.load\<close> returns a value, it raises
  \<open>json.JSONDecodeError\<close>, or \<open>open\<close> or the read raises any other exception (an
  \<open>OSError\<close>, a \<open>UnicodeDecodeError\<close>). The strings are the exceptions' texts.
\<close>

datatype read_outcome =
    Parsed json
  | JSONDecodeError string
  | OtherError string

datatype faq_file = Absent | Present read_outcome

definition FAQ_FILE :: string where
  "FAQ_FILE = ''faq.json''"

text \<open>\<open>f"'{s}'"\<close>: the string between apostrophes.\<close>

definition quoted :: "string \<Rightarrow> string" where
  "quoted s = CHR 0x27 # s @ [CHR 0x27]"

definition load_faq_data :: "faq_file \<Rightarrow> log \<times> (exc + json)" where
  "load_faq_data f = (case f of
      Absent \<Rightarrow>
        ([''Critical Error: The data file '' @ quoted FAQ_FILE @ '' was not found.''],
         abort 500
           (''Server configuration error: Data file '' @ quoted FAQ_FILE @ '' is missing.''))
    | Present (Parsed data) \<Rightarrow> ([], Inr data)
    | Present (JSONDecodeError e) \<Rightarrow>
        ([''JSON Decode Error in '' @ quoted FAQ_FILE @ '': '' @ e],
         abort 500
           (''Error decoding data from '' @ quoted FAQ_FILE @ ''. Please check its format.''))
    | Present (OtherError e) \<Rightarrow>
        ([''An unexpected error occurred while loading '' @ quoted FAQ_FILE @ '': '' @ e],
         abort 500 ''An unexpected error occurred while trying to load data.''))"

subsection \<open>Python's \<open>in\<close> and subscript on a loaded value\<close>

text \<open>
  \<open>faq_key in faq_data\<close> and \<open>faq_data[faq_key]\<close> with a \<open>str\<close> key: membership among
  the keys of a \<open>dict\<close>, among the elements of a \<open>list\<close>, as a substring of a \<open>str\<close>,
  and a \<open>TypeError\<close> on the other values; the subscript succeeds on a \<open>dict\<close> only.
\<close>

definition py_in :: "string \<Rightarrow> json \<Rightarrow> exc + bool" where
  "py_in k j = (case j of
      JObj d \<Rightarrow> Inr (k \<in> fst ` set d)
    | JArr xs \<Rightarrow> Inr (JStr k \<in> set xs)
    | JStr s \<Rightarrow> Inr (sublist k s)
    | _ \<Rightarrow> Inl (TypeError ''argument is not iterable''))"

definition py_getitem :: "json \<Rightarrow> string \<Rightarrow> exc + json" where
  "py_getitem j k = (case j of
      JObj d \<Rightarrow> (case map_of d k of Some v \<Rightarrow> Inr v | None \<Rightarrow> Inl (KeyError k))
    | JArr xs \<Rightarrow> Inl (TypeError ''list indices must be integers or slices, not str'')
    | JStr s \<Rightarrow> Inl (TypeError ''string indices must be integers, not str'')
    | _ \<Rightarrow> Inl (TypeError ''object is not subscriptable''))"

subsection \<open>The view functions\<close>

text \<open>A view returns the pair \<open>(jsonify(value), status)\<close> or raises.\<close>

type_synonym view_result = "log \<times> (exc + json \<times> nat)"

text \<open>
  \<open>health_check\<close>: the call of \<open>load_faq_data\<close> stands inside \<open>try ... except Exception\<close>,
  and the \<open>HTTPException\<close> that \<open>abort\<close> raises is an \<open>Exception\<close>: the handler catches
  it, logs it and returns 503.
\<close>

definition health_check :: "faq_file \<Rightarrow> view_result" where
  "health_check f = (case load_faq_data f of
      (lg, Inr data) \<Rightarrow>
        (lg, Inr (JObj [(''status'', JStr ''ok''),
                        (''message'', JStr ''API is healthy and data file is accessible.'')],
                  200))
    | (lg, Inl e) \<Rightarrow>
        (lg @ [''Health check failed: '' @ str_exc e],
         Inr (JObj [(''status'', JStr ''error''),
                    (''message'', JStr ''API is unhealthy or data source is unavailable.'')],
              503)))"

definition get_all_faq :: "faq_file \<Rightarrow> view_result" where
  "get_all_faq f = (case load_faq_data f of
      (lg, Inl e) \<Rightarrow> (lg, Inl e)
    | (lg, Inr faq_data) \<Rightarrow> (lg, Inr (faq_data, 200)))"

definition get_specific_faq :: "faq_file \<Rightarrow> string \<Rightarrow> view_result" where
  "get_specific_faq f faq_key = (case load_faq_data f of
      (lg, Inl e) \<Rightarrow> (lg, Inl e)
    | (lg, Inr faq_data) \<Rightarrow>
        (case py_in faq_key faq_data of
           Inl e \<Rightarrow> (lg, Inl e)
         | Inr True \<Rightarrow>
             (case py_getitem faq_data faq_key of
                Inl e \<Rightarrow> (lg, Inl e)
              | Inr v \<Rightarrow> (lg, Inr (v, 200)))
         | Inr False \<Rightarrow>
             (lg, Inr (JObj [(''error'', JStr ''FAQ item not found''),
                             (''requested_key'', JStr faq_key)],
                       404))))"

subsection \<open>The error handlers\<close>

text \<open>
  Each handler receives the exception and reads its \<open>description\<close>;
  \<open>error.description or fallback\<close> is the fallback when the description is empty.
\<close>

definition py_or :: "string \<Rightarrow> string \<Rightarrow> string" where
  "py_or s fallback = (if s = [] then fallback else s)"

definition not_found_error :: "string \<Rightarrow> json \<times> nat" where
  "not_found_error description =
     (JObj [(''error_code'', JStr ''NOT_FOUND''),
            (''message'',
             JStr (py_or description ''The requested resource was not found on this server.''))],
      404)"

definition internal_error :: "string \<Rightarrow> json \<times> nat" where
  "internal_error description =
     (JObj [(''error_code'', JStr ''INTERNAL_SERVER_ERROR''),
            (''message'',
             JStr (py_or description
               ''An unexpected error occurred on the server. Please try again later.''))],
      500)"

definition method_not_allowed_error :: "string \<Rightarrow> json \<times> nat" where
  "method_not_allowed_error description =
     (JObj [(''error_code'', JStr ''METHOD_NOT_ALLOWED''),
            (''message'',
             JStr (py_or description ''The method is not allowed for the requested URL.''))],
      405)"

text \<open>The registrations \<open>@app.errorhandler(404)\<close>, \<open>(500)\<close> and \<open>(405)\<close>.\<close>

definition errorhandler :: "nat \<Rightarrow> (string \<Rightarrow> json \<times> nat) option" where
  "errorhandler code =
     (if code = 404 then Some not_found_error
      else if code = 500 then Some internal_error
      else if code = 405 then Some method_not_allowed_error
      else None)"

text \<open>
  The error envelope of the specification: an object with exactly the keys
  \<open>error_code\<close> and \<open>message\<close>, the code one of the three names and the message a string.
\<close>

definition is_error_envelope :: "json \<Rightarrow> bool" where
  "is_error_envelope j = (case j of
      JObj d \<Rightarrow>
        set (map fst d) = {''error_code'', ''message''} \<and>
        (case map_of d ''error_code'' of
           Some (JStr c) \<Rightarrow> c \<in> {''NOT_FOUND'', ''INTERNAL_SERVER_ERROR'', ''METHOD_NOT_ALLOWED''}
         | _ \<Rightarrow> False) \<and>
        (case map_of d ''message'' of Some (JStr m) \<Rightarrow> True | _ \<Rightarrow> False)
    | _ \<Rightarrow> False)"

subsection \<open>Routing and dispatch\<close>

text \<open>
  The URL map holds four rules: the three \<open>@app.route\<close> rules and the rule
  \<open>/static/<path:filename>\<close> that \<open>Flask(__name__)\<close> (line 6) registers for the static
  folder. Each answers \<open>GET\<close>: the three are declared with \<open>methods=['GET']\<close>, which is
  also the default; Werkzeug adds \<open>HEAD\<close> to a rule that has \<open>GET\<close>, and Flask adds
  \<open>OPTIONS\<close>, which it answers itself.

  The converter \<open><string:faq_key>\<close> takes one path segment, at least one character and
  no slash. The converter \<open><path:filename>\<close> takes the rest of the path, which matches
  the regular expression \<open>[^/].*?\<close>: a first character that is no slash, then
  characters that are no newline. A rule without a trailing slash does not match a path
  with one.
\<close>

datatype http_method = GET | HEAD | POST | PUT | DELETE | CONNECT | OPTIONS | TRACE | PATCH

datatype endpoint = Health_check | Get_all_faq | Get_specific_faq string | Static string

fun strip_prefix :: "string \<Rightarrow> string \<Rightarrow> string option" where
  "strip_prefix [] ys = Some ys"
| "strip_prefix (x # xs) [] = None"
| "strip_prefix (x # xs) (y # ys) = (if x = y then strip_prefix xs ys else None)"

definition match_static :: "string \<Rightarrow> endpoint option" where
  "match_static path = (case strip_prefix ''/static/'' path of
      None \<Rightarrow> None
    | Some [] \<Rightarrow> None
    | Some (c # cs) \<Rightarrow>
        if c \<noteq> CHR ''/'' \<and> CHR 0x0A \<notin> set cs then Some (Static (c # cs)) else None)"

definition match_path :: "string \<Rightarrow> endpoint option" where
  "match_path path =
     (if path = ''/health'' then Some Health_check
      else if path = ''/api/faq'' then Some Get_all_faq
      else (case strip_prefix ''/api/faq/'' path of
              None \<Rightarrow> match_static path
            | Some faq_key \<Rightarrow>
                if faq_key \<noteq> [] \<and> CHR ''/'' \<notin> set faq_key
                then Some (Get_specific_faq faq_key) else None))"

definition rule_methods :: "http_method list" where
  "rule_methods = [GET, HEAD, OPTIONS]"

definition NotFound_description :: string where
  "NotFound_description =
     ''The requested URL was not found on the server. If you entered the URL manually please check your spelling and try again.''"

definition MethodNotAllowed_description :: string where
  "MethodNotAllowed_description = ''The method is not allowed for the requested URL.''"

text \<open>
  What Werkzeug does with the path before and after it tries the rules. The path of the
  request (\<open>PATH_INFO\<close>, percent-decoded) is matched with its leading slashes reduced to
  one (\<open>"/" + path_info.lstrip("/")\<close>). When no rule accepts the request, the rules are
  tried again on the path with its doubled slashes merged
  (\<open>re.sub("/{2,}?", "/", path)\<close>: each pair of slashes, from the left, becomes one); a
  rule that accepts it then makes Werkzeug raise a \<open>RequestRedirect\<close> to the merged path,
  an \<open>HTTPException\<close> of code 308 whose description is the new location. A rule that
  matches the path in either round but not the method makes the failure a
  \<open>MethodNotAllowed\<close>; otherwise it is a \<open>NotFound\<close>.
\<close>

definition path_part :: "string \<Rightarrow> string" where
  "path_part path_info =
     (if path_info = [] then [] else CHR ''/'' # dropWhile (\<lambda>c. c = CHR ''/'') path_info)"

fun merge_slashes :: "string \<Rightarrow> string" where
  "merge_slashes (a # b # cs) =
     (if a = CHR ''/'' \<and> b = CHR ''/'' then CHR ''/'' # merge_slashes cs
      else a # merge_slashes (b # cs))"
| "merge_slashes cs = cs"

definition url_match :: "http_method \<Rightarrow> string \<Rightarrow> exc + endpoint" where
  "url_match m path_info =
     (let path = path_part path_info in
      case match_path path of
        Some ep \<Rightarrow>
          if m \<in> set rule_methods then Inr ep else abort 405 MethodNotAllowed_description
      | None \<Rightarrow>
          (case match_path (merge_slashes path) of
             Some ep \<Rightarrow>
               if m \<in> set rule_methods then abort 308 (merge_slashes path)
               else abort 405 MethodNotAllowed_description
           | None \<Rightarrow> abort 404 NotFound_description))"

text \<open>
  The response object the application hands to the WSGI layer: a JSON body with a
  status; Flask's own answer to \<open>OPTIONS\<close> (status 200, an \<open>Allow\<close> header, no body); an
  \<open>HTTPException\<close> for whose code no handler is registered, rendered by Werkzeug (the
  redirect above); or what Flask's static view \<open>send_static_file(filename)\<close> answers,
  which the static folder decides: the file with 200, or, where there is no such file,
  the \<open>NotFound\<close> that \<open>not_found_error\<close> answers.
  (For \<open>HEAD\<close> the view runs as for \<open>GET\<close>; the body is dropped only on the wire.)
\<close>

datatype response =
    Json_response json nat
  | Options_response
  | Werkzeug_response nat
  | Static_response string

text \<open>The status of a response, where the application decides it.\<close>

definition status_code :: "response \<Rightarrow> nat option" where
  "status_code r = (case r of
      Json_response j code \<Rightarrow> Some code
    | Options_response \<Rightarrow> Some 200
    | Werkzeug_response code \<Rightarrow> Some code
    | Static_response filename \<Rightarrow> None)"

definition make_response :: "json \<times> nat \<Rightarrow> response" where
  "make_response rv = (case rv of (j, code) \<Rightarrow> Json_response j code)"

text \<open>
  An \<open>HTTPException\<close> goes to the handler registered for its code; any other exception
  is not handled by the application (\<open>Inl\<close>): Flask re-raises it in debug mode and turns
  it into its own internal server error otherwise.
\<close>

definition handle_user_exception :: "exc \<Rightarrow> exc + response" where
  "handle_user_exception e = (case e of
      HTTPException code description \<Rightarrow>
        (case errorhandler code of
           Some handler \<Rightarrow> Inr (make_response (handler description))
         | None \<Rightarrow> Inr (Werkzeug_response code))
    | _ \<Rightarrow> Inl e)"

text \<open>The view of an endpoint, its return value made a response.\<close>

definition finalize :: "view_result \<Rightarrow> log \<times> (exc + response)" where
  "finalize r = (case r of
      (lg, Inl e) \<Rightarrow> (lg, Inl e)
    | (lg, Inr rv) \<Rightarrow> (lg, Inr (make_response rv)))"

definition dispatch_view :: "faq_file \<Rightarrow> endpoint \<Rightarrow> log \<times> (exc + response)" where
  "dispatch_view f ep = (case ep of
      Health_check \<Rightarrow> finalize (health_check f)
    | Get_all_faq \<Rightarrow> finalize (get_all_faq f)
    | Get_specific_faq faq_key \<Rightarrow> finalize (get_specific_faq f faq_key)
    | Static filename \<Rightarrow> ([], Inr (Static_response filename)))"

definition handle_request :: "faq_file \<Rightarrow> http_method \<Rightarrow> string \<Rightarrow> log \<times> (exc + response)" where
  "handle_request f m path = (case url_match m path of
      Inl e \<Rightarrow> ([], handle_user_exception e)
    | Inr ep \<Rightarrow>
        if m = OPTIONS then ([], Inr Options_response)
        else (case dispatch_view f ep of
                (lg, Inl e) \<Rightarrow> (lg, handle_user_exception e)
              | (lg, Inr r) \<Rightarrow> (lg, Inr r)))"

subsection \<open>Values and notions used in the statements\<close>

text \<open>
  The example document of the specification, and the text of a \<open>JSONDecodeError\<close>.
\<close>

definition price_doc :: "(string \<times> json) list" where
  "price_doc = [(''price_cut'', JStr ''We reduced prices in March.'')]"

definition decode_error :: string where
  "decode_error = ''Expecting value: line 1 column 1 (char 0)''"

text \<open>
  The three ways in which \<open>load_faq_data\<close> aborts, under the names the specification
  gives them, and the description that each passes to \<open>abort\<close> (lines 22, 32 and 36).
\<close>

datatype failure_kind = MissingDataFile | MalformedData | UnexpectedLoadFailure

definition failure_kind :: "faq_file \<Rightarrow> failure_kind option" where
  "failure_kind f = (case f of
      Absent \<Rightarrow> Some MissingDataFile
    | Present (Parsed data) \<Rightarrow> None
    | Present (JSONDecodeError e) \<Rightarrow> Some MalformedData
    | Present (OtherError e) \<Rightarrow> Some UnexpectedLoadFailure)"

definition abort_description :: "failure_kind \<Rightarrow> string" where
  "abort_description k = (case k of
      MissingDataFile \<Rightarrow>
        ''Server configuration error: Data file '' @ quoted FAQ_FILE @ '' is missing.''
    | MalformedData \<Rightarrow>
        ''Error decoding data from '' @ quoted FAQ_FILE @ ''. Please check its format.''
    | UnexpectedLoadFailure \<Rightarrow> ''An unexpected error occurred while trying to load data.'')"

text \<open>
  The bodies that the handlers and \<open>health_check\<close> build.
\<close>

definition internal_error_envelope :: "string \<Rightarrow> json" where
  "internal_error_envelope msg =
     JObj [(''error_code'', JStr ''INTERNAL_SERVER_ERROR''), (''message'', JStr msg)]"

definition not_found_envelope :: json where
  "not_found_envelope =
     JObj [(''error_code'', JStr ''NOT_FOUND''), (''message'', JStr NotFound_description)]"

definition method_not_allowed_envelope :: json where
  "method_not_allowed_envelope =
     JObj [(''error_code'', JStr ''METHOD_NOT_ALLOWED''),
           (''message'', JStr MethodNotAllowed_description)]"

definition healthy :: json where
  "healthy = JObj [(''status'', JStr ''ok''),
                   (''message'', JStr ''API is healthy and data file is accessible.'')]"

definition unhealthy :: json where
  "unhealthy = JObj [(''status'', JStr ''error''),
                     (''message'', JStr ''API is unhealthy or data source is unavailable.'')]"

section \<open>Properties\<close>

subsection \<open>Routing\<close>

lemma strip_prefix_append: "strip_prefix xs (xs @ k) = Some k"
  by (induction xs) simp_all

lemma match_path_faq_key:
  assumes "k \<noteq> []" and "CHR ''/'' \<notin> set k"
  shows "match_path (''/api/faq/'' @ k) = Some (Get_specific_faq k)"
  using assms by (cases k) (simp_all add: match_path_def)

lemma match_path_health: "match_path ''/health'' = Some Health_check"
  by (simp add: match_path_def)

lemma match_path_all: "match_path ''/api/faq'' = Some Get_all_faq"
  by (simp add: match_path_def)

lemma strip_prefix_Some: "strip_prefix xs ys = Some k \<Longrightarrow> ys = xs @ k"
  by (induction xs ys rule: strip_prefix.induct) (auto split: if_splits)

lemma path_part_slash: "c \<noteq> CHR ''/'' \<Longrightarrow> path_part (CHR ''/'' # c # cs) = CHR ''/'' # c # cs"
  by (simp add: path_part_def)

lemma match_path_path_part:
  assumes "match_path p = Some ep"
  shows "path_part p = p"
proof -
  consider "p = ''/health''" | "p = ''/api/faq''"
    | k where "strip_prefix ''/api/faq/'' p = Some k"
    | c cs where "strip_prefix ''/static/'' p = Some (c # cs)"
    using assms
    by (auto simp: match_path_def match_static_def split: if_splits option.splits list.splits)
  then show ?thesis
  proof cases
    case 1
    then show ?thesis by (simp add: path_part_def)
  next
    case 2
    then show ?thesis by (simp add: path_part_def)
  next
    case 3
    then show ?thesis by (auto dest!: strip_prefix_Some simp: path_part_def)
  next
    case 4
    then show ?thesis by (auto dest!: strip_prefix_Some simp: path_part_def)
  qed
qed

lemma url_match_allowed:
  "match_path p = Some ep \<Longrightarrow> m \<in> set rule_methods \<Longrightarrow> url_match m p = Inr ep"
  by (simp add: url_match_def match_path_path_part)

lemma url_match_not_allowed:
  "match_path p = Some ep \<Longrightarrow> m \<notin> set rule_methods \<Longrightarrow>
   url_match m p = Inl (HTTPException 405 MethodNotAllowed_description)"
  by (simp add: url_match_def match_path_path_part abort_def)

lemma url_match_GET: "match_path p = Some ep \<Longrightarrow> url_match GET p = Inr ep"
  by (simp add: url_match_allowed rule_methods_def)

lemma url_match_no_rule:
  "match_path (path_part p) = None \<Longrightarrow> match_path (merge_slashes (path_part p)) = None \<Longrightarrow>
   url_match m p = Inl (HTTPException 404 NotFound_description)"
  by (simp add: url_match_def abort_def)

text \<open>
  The rule of the static folder and the merging of slashes at work: \<open>POST /static/x\<close> is
  a method that the rule does not allow, \<open>OPTIONS /static/x\<close> is answered by Flask,
  \<open>GET /static/x\<close> goes to the static view, \<open>GET /api//faq\<close> is redirected to \<open>/api/faq\<close>,
  and \<open>GET //health\<close> is \<open>GET /health\<close>.
\<close>

lemma static_rule_examples:
  "snd (handle_request f POST ''/static/x'') = Inr (Json_response method_not_allowed_envelope 405)"
  "handle_request f OPTIONS ''/static/x'' = ([], Inr Options_response)"
  "handle_request f GET ''/static/x'' = ([], Inr (Static_response ''x''))"
  by (simp_all add: handle_request_def url_match_def path_part_def match_path_def
      match_static_def rule_methods_def abort_def handle_user_exception_def errorhandler_def
      make_response_def method_not_allowed_error_def py_or_def dispatch_view_def
      method_not_allowed_envelope_def MethodNotAllowed_description_def)

lemma merge_slashes_examples:
  "handle_request f GET ''/api//faq'' = ([], Inr (Werkzeug_response 308))"
  "url_match GET ''/api//faq'' = Inl (HTTPException 308 ''/api/faq'')"
  "url_match GET ''//health'' = Inr Health_check"
  "snd (handle_request f POST ''/api//faq'') = Inr (Json_response method_not_allowed_envelope 405)"
  by (simp_all add: handle_request_def url_match_def path_part_def match_path_def
      match_static_def rule_methods_def abort_def handle_user_exception_def errorhandler_def
      make_response_def method_not_allowed_error_def py_or_def
      method_not_allowed_envelope_def MethodNotAllowed_description_def)

subsection \<open>The loader\<close>

lemma load_faq_data_Inr: "snd (load_faq_data f) = Inr d \<longleftrightarrow> f = Present (Parsed d)"
  by (auto simp: load_faq_data_def abort_def split: faq_file.splits read_outcome.splits)

lemma load_faq_data_Parsed: "load_faq_data (Present (Parsed d)) = ([], Inr d)"
  by (simp add: load_faq_data_def)

lemma load_faq_data_failure:
  "failure_kind f = Some k \<Longrightarrow> snd (load_faq_data f) = Inl (HTTPException 500 (abort_description k))"
  by (auto simp: failure_kind_def load_faq_data_def abort_def abort_description_def
      split: faq_file.splits read_outcome.splits)

lemma failure_kind_None: "failure_kind f = None \<longleftrightarrow> (\<exists>d. f = Present (Parsed d))"
  by (auto simp: failure_kind_def split: faq_file.splits read_outcome.splits)

lemma abort_description_nonempty: "abort_description k \<noteq> []"
  by (cases k) (simp_all add: abort_description_def)

lemma abort_description_inj: "abort_description k1 = abort_description k2 \<longleftrightarrow> k1 = k2"
  by (cases k1; cases k2) (simp_all add: abort_description_def quoted_def)

subsection \<open>Error envelopes\<close>

lemma custom_404_not_envelope:
  "\<not> is_error_envelope (JObj [(''error'', JStr ''FAQ item not found''), (''requested_key'', JStr k)])"
  by (auto simp: is_error_envelope_def)

lemma internal_error_envelope_ok: "is_error_envelope (internal_error_envelope msg)"
  by (auto simp: is_error_envelope_def internal_error_envelope_def)

lemma method_not_allowed_envelope_ok: "is_error_envelope method_not_allowed_envelope"
  by (auto simp: is_error_envelope_def method_not_allowed_envelope_def)

lemma not_found_envelope_ok: "is_error_envelope not_found_envelope"
  by (auto simp: is_error_envelope_def not_found_envelope_def)

lemma handle_500:
  "d \<noteq> [] \<Longrightarrow> handle_user_exception (HTTPException 500 d) =
     Inr (Json_response (internal_error_envelope d) 500)"
  by (simp add: handle_user_exception_def errorhandler_def make_response_def internal_error_def
      py_or_def internal_error_envelope_def)

subsection \<open>A failing loader, endpoint by endpoint\<close>

text \<open>
  \<open>get_all_faq\<close> and \<open>get_specific_faq\<close> let the \<open>HTTPException\<close> of \<open>abort\<close> pass to
  \<open>internal_error\<close>; \<open>health_check\<close> catches it and answers 503, whatever the failure.
\<close>

lemma get_all_faq_failure:
  assumes "failure_kind f = Some k"
  shows "snd (handle_request f GET ''/api/faq'') =
           Inr (Json_response (internal_error_envelope (abort_description k)) 500)"
proof -
  obtain lg where "load_faq_data f = (lg, Inl (HTTPException 500 (abort_description k)))"
    using load_faq_data_failure [OF assms] by (cases "load_faq_data f") simp
  then have "get_all_faq f = (lg, Inl (HTTPException 500 (abort_description k)))"
    by (simp add: get_all_faq_def)
  then show ?thesis
    by (simp add: handle_request_def url_match_GET [OF match_path_all] dispatch_view_def finalize_def
        handle_500 [OF abort_description_nonempty])
qed

lemma get_specific_faq_failure:
  assumes "failure_kind f = Some k" and "key \<noteq> []" and "CHR ''/'' \<notin> set key"
  shows "snd (handle_request f GET (''/api/faq/'' @ key)) =
           Inr (Json_response (internal_error_envelope (abort_description k)) 500)"
proof -
  obtain lg where "load_faq_data f = (lg, Inl (HTTPException 500 (abort_description k)))"
    using load_faq_data_failure [OF assms(1)] by (cases "load_faq_data f") simp
  then have "get_specific_faq f key = (lg, Inl (HTTPException 500 (abort_description k)))"
    by (simp add: get_specific_faq_def)
  moreover have "url_match GET (''/api/faq/'' @ key) = Inr (Get_specific_faq key)"
    using assms(2,3) by (intro url_match_GET match_path_faq_key)
  ultimately show ?thesis
    by (simp add: handle_request_def dispatch_view_def finalize_def handle_500 [OF abort_description_nonempty])
qed

lemma health_check_failure:
  assumes "failure_kind f = Some k"
  shows "snd (handle_request f GET ''/health'') = Inr (Json_response unhealthy 503)"
proof -
  obtain lg where "load_faq_data f = (lg, Inl (HTTPException 500 (abort_description k)))"
    using load_faq_data_failure [OF assms] by (cases "load_faq_data f") simp
  then have "snd (health_check f) = Inr (unhealthy, 503)"
    by (simp add: health_check_def unhealthy_def)
  then show ?thesis
    by (cases "health_check f")
      (simp add: handle_request_def url_match_GET [OF match_path_health] dispatch_view_def finalize_def
        make_response_def)
qed

section \<open>The claims\<close>

text \<open>
  C1 (amended). For every document loaded from the data file that is an object and for
  every key \<open>k\<close> of it that the route can carry (not empty, no slash),
  \<open>GET /api/faq/k\<close> returns 200 and the document's value at \<open>k\<close>, whatever that value is;
  nothing is logged.
\<close>

theorem get_specific_faq_present:
  assumes "snd (load_faq_data f) = Inr (JObj d)"
    and "map_of d k = Some v"
    and "k \<noteq> []" and "CHR ''/'' \<notin> set k"
  shows "handle_request f GET (''/api/faq/'' @ k) = ([], Inr (Json_response v 200))"
proof -
  from assms(1) have f: "f = Present (Parsed (JObj d))"
    by (simp add: load_faq_data_Inr)
  from assms(2) have "k \<in> fst ` set d"
    by (metis map_of_eq_None_iff option.distinct(1))
  then have "get_specific_faq f k = ([], Inr (v, 200))"
    using assms(2) by (simp add: get_specific_faq_def f load_faq_data_Parsed py_in_def py_getitem_def)
  moreover have "url_match GET (''/api/faq/'' @ k) = Inr (Get_specific_faq k)"
    using assms(3,4) by (intro url_match_GET match_path_faq_key)
  ultimately show ?thesis
    by (simp add: handle_request_def dispatch_view_def finalize_def make_response_def)
qed

text \<open>
  The example of the specification: \<open>GET /api/faq/price_cut\<close>.
\<close>

theorem get_specific_faq_present_witness:
  "snd (load_faq_data (Present (Parsed (JObj price_doc)))) = Inr (JObj price_doc) \<and>
   map_of price_doc ''price_cut'' = Some (JStr ''We reduced prices in March.'') \<and>
   ''price_cut'' \<noteq> [] \<and> CHR ''/'' \<notin> set ''price_cut'' \<and>
   handle_request (Present (Parsed (JObj price_doc))) GET ''/api/faq/price_cut'' =
     ([], Inr (Json_response (JStr ''We reduced prices in March.'') 200))"
  using get_specific_faq_present [of "Present (Parsed (JObj price_doc))" price_doc
      "''price_cut''" "JStr ''We reduced prices in March.''"]
  by (simp add: load_faq_data_def price_doc_def)

text \<open>
  C1 as stated fails for a key with a slash: the document \<open>{"a/b": null}\<close> has the key
  \<open>a/b\<close>, and \<open>GET /api/faq/a/b\<close> matches no rule, so the answer is the generic 404.
  The same holds for the empty key and \<open>GET /api/faq/\<close>.
\<close>

theorem get_specific_faq_slash_key_counterexample:
  "snd (load_faq_data (Present (Parsed (JObj [(''a/b'', JNull)])))) = Inr (JObj [(''a/b'', JNull)]) \<and>
   map_of [(''a/b'', JNull)] ''a/b'' = Some JNull \<and>
   snd (handle_request (Present (Parsed (JObj [(''a/b'', JNull)]))) GET (''/api/faq/'' @ ''a/b'')) =
     Inr (Json_response
            (JObj [(''error_code'', JStr ''NOT_FOUND''), (''message'', JStr NotFound_description)])
            404) \<and>
   map_of [([], JNull)] [] = Some JNull \<and>
   snd (handle_request (Present (Parsed (JObj [([], JNull)]))) GET (''/api/faq/'' @ [])) =
     Inr (Json_response
            (JObj [(''error_code'', JStr ''NOT_FOUND''), (''message'', JStr NotFound_description)])
            404)"
  by (simp add: load_faq_data_def handle_request_def url_match_def path_part_def match_path_def match_static_def abort_def
      handle_user_exception_def errorhandler_def make_response_def not_found_error_def
      py_or_def NotFound_description_def)

text \<open>
  C2 (amended). For every document loaded from the data file that is an object and for
  every key \<open>k\<close> not in it that the route can carry (not empty, no slash),
  \<open>GET /api/faq/k\<close> returns 404 with the body
  \<open>{"error": "FAQ item not found", "requested_key": k}\<close>, the key verbatim, and this body
  is not an error envelope.
\<close>

theorem get_specific_faq_absent:
  assumes "snd (load_faq_data f) = Inr (JObj d)"
    and "map_of d k = None"
    and "k \<noteq> []" and "CHR ''/'' \<notin> set k"
  shows "handle_request f GET (''/api/faq/'' @ k) =
           ([], Inr (Json_response
                       (JObj [(''error'', JStr ''FAQ item not found''), (''requested_key'', JStr k)])
                       404)) \<and>
         \<not> is_error_envelope
             (JObj [(''error'', JStr ''FAQ item not found''), (''requested_key'', JStr k)])"
proof -
  from assms(1) have f: "f = Present (Parsed (JObj d))"
    by (simp add: load_faq_data_Inr)
  from assms(2) have "k \<notin> fst ` set d"
    by (simp add: map_of_eq_None_iff)
  then have "get_specific_faq f k =
      ([], Inr (JObj [(''error'', JStr ''FAQ item not found''), (''requested_key'', JStr k)], 404))"
    by (simp add: get_specific_faq_def f load_faq_data_Parsed py_in_def)
  moreover have "url_match GET (''/api/faq/'' @ k) = Inr (Get_specific_faq k)"
    using assms(3,4) by (intro url_match_GET match_path_faq_key)
  ultimately show ?thesis
    by (simp add: handle_request_def dispatch_view_def finalize_def make_response_def custom_404_not_envelope)
qed

text \<open>
  The example of the specification: \<open>GET /api/faq/refunds\<close>.
\<close>

theorem get_specific_faq_absent_witness:
  "snd (load_faq_data (Present (Parsed (JObj price_doc)))) = Inr (JObj price_doc) \<and>
   map_of price_doc ''refunds'' = None \<and>
   ''refunds'' \<noteq> [] \<and> CHR ''/'' \<notin> set ''refunds'' \<and>
   handle_request (Present (Parsed (JObj price_doc))) GET ''/api/faq/refunds'' =
     ([], Inr (Json_response
                 (JObj [(''error'', JStr ''FAQ item not found''),
                        (''requested_key'', JStr ''refunds'')])
                 404)) \<and>
   \<not> is_error_envelope
       (JObj [(''error'', JStr ''FAQ item not found''), (''requested_key'', JStr ''refunds'')])"
  using get_specific_faq_absent [of "Present (Parsed (JObj price_doc))" price_doc "''refunds''"]
  by (simp add: load_faq_data_def price_doc_def)

text \<open>
  C2 as stated fails for a key with a slash: \<open>a/b\<close> is not in the example document, and
  \<open>GET /api/faq/a/b\<close> is answered by \<open>not_found_error\<close> with the error envelope, without
  \<open>requested_key\<close>. The same holds for the empty key and \<open>GET /api/faq/\<close>.
\<close>

theorem get_specific_faq_absent_slash_counterexample:
  "snd (load_faq_data (Present (Parsed (JObj price_doc)))) = Inr (JObj price_doc) \<and>
   map_of price_doc ''a/b'' = None \<and>
   snd (handle_request (Present (Parsed (JObj price_doc))) GET (''/api/faq/'' @ ''a/b'')) =
     Inr (Json_response
            (JObj [(''error_code'', JStr ''NOT_FOUND''), (''message'', JStr NotFound_description)])
            404) \<and>
   map_of price_doc [] = None \<and>
   snd (handle_request (Present (Parsed (JObj price_doc))) GET (''/api/faq/'' @ [])) =
     Inr (Json_response
            (JObj [(''error_code'', JStr ''NOT_FOUND''), (''message'', JStr NotFound_description)])
            404) \<and>
   is_error_envelope
     (JObj [(''error_code'', JStr ''NOT_FOUND''), (''message'', JStr NotFound_description)])"
  by (simp add: load_faq_data_def handle_request_def url_match_def path_part_def match_path_def match_static_def abort_def
      handle_user_exception_def errorhandler_def make_response_def not_found_error_def
      py_or_def NotFound_description_def price_doc_def is_error_envelope_def)

text \<open>
  C3. For every data file that parses, with the parsed document \<open>doc\<close> of whatever
  JSON type, \<open>GET /api/faq\<close> returns 200 and \<open>doc\<close> itself as its body: the whole
  document, nothing added, removed or altered; nothing is logged.
\<close>

theorem get_all_faq_whole_document:
  "handle_request (Present (Parsed doc)) GET ''/api/faq'' = ([], Inr (Json_response doc 200))"
proof -
  have "get_all_faq (Present (Parsed doc)) = ([], Inr (doc, 200))"
    by (simp add: get_all_faq_def load_faq_data_Parsed)
  then show ?thesis
    by (simp add: handle_request_def url_match_GET [OF match_path_all] dispatch_view_def
        finalize_def make_response_def)
qed

text \<open>
  The example of the specification: the file \<open>{"price_cut": "We reduced prices in March."}\<close>.
\<close>

theorem get_all_faq_whole_document_witness:
  "handle_request (Present (Parsed (JObj [(''price_cut'', JStr ''We reduced prices in March.'')])))
     GET ''/api/faq'' =
   ([], Inr (Json_response (JObj [(''price_cut'', JStr ''We reduced prices in March.'')]) 200))"
  using get_all_faq_whole_document
    [of "JObj [(''price_cut'', JStr ''We reduced prices in March.'')]"]
  by simp

text \<open>
  C4. With a data file that is not valid JSON, \<open>GET /api/faq\<close> returns 500 with the
  envelope of \<open>INTERNAL_SERVER_ERROR\<close>, as the claim says, but \<open>GET /health\<close> returns 503
  with the body of the \<open>except\<close> branch of \<open>health_check\<close>: the code departs from the claim.
\<close>

theorem malformed_file_health_503:
  "snd (load_faq_data (Present (JSONDecodeError decode_error))) =
     Inl (HTTPException 500
            (''Error decoding data from '' @ quoted FAQ_FILE @ ''. Please check its format.'')) \<and>
   snd (handle_request (Present (JSONDecodeError decode_error)) GET ''/health'') =
     Inr (Json_response unhealthy 503) \<and>
   snd (handle_request (Present (JSONDecodeError decode_error)) GET ''/api/faq'') =
     Inr (Json_response
            (internal_error_envelope
               (''Error decoding data from '' @ quoted FAQ_FILE @ ''. Please check its format.''))
            500)"
  by (simp add: load_faq_data_def abort_def handle_request_def url_match_def path_part_def match_path_def match_static_def
      rule_methods_def dispatch_view_def finalize_def health_check_def get_all_faq_def make_response_def
      unhealthy_def handle_user_exception_def errorhandler_def internal_error_def py_or_def
      internal_error_envelope_def quoted_def)

text \<open>
  C5. With the data file absent, \<open>GET /health\<close> does not produce the 500 envelope: the
  \<open>except Exception\<close> of \<open>health_check\<close> catches the \<open>HTTPException\<close> raised by \<open>abort\<close>,
  logs it and returns 503, so the 503 branch is reached; the code departs from the claim.
\<close>

theorem absent_file_health_503:
  "handle_request Absent GET ''/health'' =
     ([''Critical Error: The data file '' @ quoted FAQ_FILE @ '' was not found.'',
       ''Health check failed: 500 Internal Server Error: Server configuration error: Data file ''
         @ quoted FAQ_FILE @ '' is missing.''],
      Inr (Json_response unhealthy 503))"
  by (simp add: load_faq_data_def abort_def handle_request_def url_match_def path_part_def match_path_def match_static_def
      rule_methods_def dispatch_view_def finalize_def health_check_def make_response_def unhealthy_def
      str_exc_def status_line_def)

text \<open>
  C6 (amended). Whenever \<open>load_faq_data\<close> returns, it returns exactly the value that
  \<open>json.load\<close> produced, of whatever type, and logs nothing; \<open>GET /api/faq\<close> serves that
  value with 200. The document is an object exactly when the file's top-level value is
  one: the loader checks nothing.
\<close>

theorem load_faq_data_returns_parsed_value:
  assumes "snd (load_faq_data f) = Inr doc"
  shows "f = Present (Parsed doc) \<and> fst (load_faq_data f) = [] \<and>
         handle_request f GET ''/api/faq'' = ([], Inr (Json_response doc 200)) \<and>
         (is_object doc \<longleftrightarrow> (\<exists>d. f = Present (Parsed (JObj d))))"
proof -
  from assms have f: "f = Present (Parsed doc)"
    by (simp add: load_faq_data_Inr)
  have "get_all_faq f = ([], Inr (doc, 200))"
    by (simp add: f get_all_faq_def load_faq_data_Parsed)
  then have "handle_request f GET ''/api/faq'' = ([], Inr (Json_response doc 200))"
    by (simp add: handle_request_def url_match_GET [OF match_path_all] dispatch_view_def finalize_def
        make_response_def)
  moreover have "is_object doc \<longleftrightarrow> (\<exists>d. f = Present (Parsed (JObj d)))"
    by (cases doc) (simp_all add: f is_object_def)
  ultimately show ?thesis
    by (simp add: f load_faq_data_Parsed)
qed

theorem load_faq_data_returns_parsed_value_witness:
  "snd (load_faq_data (Present (Parsed (JArr [JStr ''a''])))) = Inr (JArr [JStr ''a'']) \<and>
   fst (load_faq_data (Present (Parsed (JArr [JStr ''a''])))) = [] \<and>
   handle_request (Present (Parsed (JArr [JStr ''a'']))) GET ''/api/faq'' =
     ([], Inr (Json_response (JArr [JStr ''a'']) 200)) \<and>
   \<not> is_object (JArr [JStr ''a''])"
  using load_faq_data_returns_parsed_value
    [of "Present (Parsed (JArr [JStr ''a'']))" "JArr [JStr ''a'']"]
  by (simp add: load_faq_data_def)

text \<open>
  C6 as stated fails for the file \<open>["a"]\<close>: the loader returns the list,
  \<open>GET /api/faq\<close> serves it, and \<open>GET /api/faq/a\<close> raises a \<open>TypeError\<close> in the view.
\<close>

theorem load_faq_data_array_counterexample:
  "load_faq_data (Present (Parsed (JArr [JStr ''a'']))) = ([], Inr (JArr [JStr ''a''])) \<and>
   \<not> is_object (JArr [JStr ''a'']) \<and>
   handle_request (Present (Parsed (JArr [JStr ''a'']))) GET (''/api/faq'') =
     ([], Inr (Json_response (JArr [JStr ''a'']) 200)) \<and>
   handle_request (Present (Parsed (JArr [JStr ''a'']))) GET (''/api/faq/a'') =
     ([], Inl (TypeError ''list indices must be integers or slices, not str''))"
  by (simp add: load_faq_data_def is_object_def handle_request_def url_match_def path_part_def match_path_def match_static_def
      rule_methods_def dispatch_view_def finalize_def get_all_faq_def get_specific_faq_def py_in_def
      py_getitem_def make_response_def handle_user_exception_def)

text \<open>
  C7 (amended). For any two loader failures, \<open>GET /api/faq\<close> and \<open>GET /api/faq/k\<close> both
  answer 500 with the envelope of \<open>INTERNAL_SERVER_ERROR\<close>; the messages of the two
  answers are equal exactly when the failures are of the same kind, since each kind
  passes its own description to \<open>abort\<close>.
\<close>

theorem loader_failures_same_code_distinct_messages:
  assumes "failure_kind f1 = Some k1" and "failure_kind f2 = Some k2"
    and "key \<noteq> []" and "CHR ''/'' \<notin> set key"
  shows "\<exists>m1 m2.
           snd (handle_request f1 GET ''/api/faq'') =
             Inr (Json_response (internal_error_envelope m1) 500) \<and>
           snd (handle_request f2 GET ''/api/faq'') =
             Inr (Json_response (internal_error_envelope m2) 500) \<and>
           snd (handle_request f1 GET (''/api/faq/'' @ key)) =
             Inr (Json_response (internal_error_envelope m1) 500) \<and>
           snd (handle_request f2 GET (''/api/faq/'' @ key)) =
             Inr (Json_response (internal_error_envelope m2) 500) \<and>
           is_error_envelope (internal_error_envelope m1) \<and>
           is_error_envelope (internal_error_envelope m2) \<and>
           (m1 = m2 \<longleftrightarrow> k1 = k2)"
proof (intro exI conjI)
  show "snd (handle_request f1 GET ''/api/faq'') =
      Inr (Json_response (internal_error_envelope (abort_description k1)) 500)"
    by (rule get_all_faq_failure [OF assms(1)])
  show "snd (handle_request f2 GET ''/api/faq'') =
      Inr (Json_response (internal_error_envelope (abort_description k2)) 500)"
    by (rule get_all_faq_failure [OF assms(2)])
  show "snd (handle_request f1 GET (''/api/faq/'' @ key)) =
      Inr (Json_response (internal_error_envelope (abort_description k1)) 500)"
    by (rule get_specific_faq_failure [OF assms(1,3,4)])
  show "snd (handle_request f2 GET (''/api/faq/'' @ key)) =
      Inr (Json_response (internal_error_envelope (abort_description k2)) 500)"
    by (rule get_specific_faq_failure [OF assms(2,3,4)])
  show "is_error_envelope (internal_error_envelope (abort_description k1))"
    by (rule internal_error_envelope_ok)
  show "is_error_envelope (internal_error_envelope (abort_description k2))"
    by (rule internal_error_envelope_ok)
  show "abort_description k1 = abort_description k2 \<longleftrightarrow> k1 = k2"
    by (rule abort_description_inj)
qed

theorem loader_failures_same_code_distinct_messages_witness:
  "failure_kind Absent = Some MissingDataFile \<and>
   failure_kind (Present (JSONDecodeError decode_error)) = Some MalformedData \<and>
   ''price_cut'' \<noteq> [] \<and> CHR ''/'' \<notin> set ''price_cut'' \<and>
   (\<exists>m1 m2.
      snd (handle_request Absent GET ''/api/faq'') =
        Inr (Json_response (internal_error_envelope m1) 500) \<and>
      snd (handle_request (Present (JSONDecodeError decode_error)) GET ''/api/faq'') =
        Inr (Json_response (internal_error_envelope m2) 500) \<and>
      snd (handle_request Absent GET ''/api/faq/price_cut'') =
        Inr (Json_response (internal_error_envelope m1) 500) \<and>
      snd (handle_request (Present (JSONDecodeError decode_error)) GET ''/api/faq/price_cut'') =
        Inr (Json_response (internal_error_envelope m2) 500) \<and>
      is_error_envelope (internal_error_envelope m1) \<and>
      is_error_envelope (internal_error_envelope m2) \<and>
      m1 \<noteq> m2)"
  using loader_failures_same_code_distinct_messages
    [of Absent MissingDataFile "Present (JSONDecodeError decode_error)" MalformedData
      "''price_cut''"]
  by (simp add: failure_kind_def)

text \<open>
  C7 as stated fails: the answers of \<open>GET /api/faq\<close> to a missing file and to a
  malformed file differ.
\<close>

theorem loader_failures_differ_counterexample:
  "snd (handle_request Absent GET ''/api/faq'') \<noteq>
   snd (handle_request (Present (JSONDecodeError decode_error)) GET ''/api/faq'')"
  by (simp add: load_faq_data_def abort_def handle_request_def url_match_def path_part_def match_path_def match_static_def
      rule_methods_def dispatch_view_def finalize_def get_all_faq_def make_response_def
      handle_user_exception_def errorhandler_def internal_error_def py_or_def quoted_def)

text \<open>
  C8 (amended). For every request whose path matches a rule and whose method is none of
  \<open>GET\<close>, \<open>HEAD\<close> and \<open>OPTIONS\<close>, the answer is 405 with the envelope of
  \<open>METHOD_NOT_ALLOWED\<close>, whatever the state of the data file.
\<close>

theorem other_method_405:
  assumes "match_path path = Some ep" and "m \<noteq> GET" and "m \<noteq> HEAD" and "m \<noteq> OPTIONS"
  shows "handle_request f m path = ([], Inr (Json_response method_not_allowed_envelope 405)) \<and>
         is_error_envelope method_not_allowed_envelope"
proof -
  from assms(2,3,4) have "m \<notin> set rule_methods"
    by (simp add: rule_methods_def)
  with assms(1) have "url_match m path = Inl (HTTPException 405 MethodNotAllowed_description)"
    by (rule url_match_not_allowed)
  moreover have "MethodNotAllowed_description \<noteq> []"
    by (simp add: MethodNotAllowed_description_def)
  ultimately have
    "handle_request f m path = ([], Inr (Json_response method_not_allowed_envelope 405))"
    by (simp add: handle_request_def handle_user_exception_def errorhandler_def
        make_response_def method_not_allowed_error_def py_or_def
        method_not_allowed_envelope_def)
  then show ?thesis
    using method_not_allowed_envelope_ok by simp
qed

text \<open>
  The example of the specification: \<open>POST /api/faq\<close>.
\<close>

theorem other_method_405_witness:
  "match_path ''/api/faq'' = Some Get_all_faq \<and> POST \<noteq> GET \<and> POST \<noteq> HEAD \<and> POST \<noteq> OPTIONS \<and>
   handle_request (Present (Parsed (JObj price_doc))) POST ''/api/faq'' =
     ([], Inr (Json_response method_not_allowed_envelope 405)) \<and>
   is_error_envelope method_not_allowed_envelope"
  using other_method_405 [of "''/api/faq''" Get_all_faq POST "Present (Parsed (JObj price_doc))"]
  by (simp add: match_path_def)

text \<open>
  C8 as stated fails for \<open>HEAD\<close> and \<open>OPTIONS\<close>, which are not \<open>GET\<close>: on \<open>/api/faq\<close>
  the first runs the view and the second is answered by Flask, both with 200.
\<close>

theorem head_and_options_counterexample:
  "match_path ''/api/faq'' = Some Get_all_faq \<and> HEAD \<noteq> GET \<and> OPTIONS \<noteq> GET \<and>
   handle_request (Present (Parsed (JObj price_doc))) HEAD ''/api/faq'' =
     ([], Inr (Json_response (JObj price_doc) 200)) \<and>
   handle_request (Present (Parsed (JObj price_doc))) OPTIONS ''/api/faq'' =
     ([], Inr Options_response) \<and>
   status_code Options_response = Some 200"
  by (simp add: load_faq_data_def handle_request_def url_match_def path_part_def match_path_def match_static_def
      rule_methods_def dispatch_view_def finalize_def get_all_faq_def make_response_def status_code_def)

text \<open>
  C9. For every request whose path matches no registered route, whatever its method and
  the state of the data file, the answer is 404 with the envelope of \<open>NOT_FOUND\<close>. A path
  matches no route when none of the four rules of the URL map matches it, neither as
  Werkzeug reads it (\<open>path_part\<close>) nor with its doubled slashes merged, the form to which
  Werkzeug would redirect.
\<close>

theorem unmatched_path_404:
  assumes "match_path (path_part path) = None"
    and "match_path (merge_slashes (path_part path)) = None"
  shows "handle_request f m path = ([], Inr (Json_response not_found_envelope 404)) \<and>
         is_error_envelope not_found_envelope"
proof -
  from assms have "url_match m path = Inl (HTTPException 404 NotFound_description)"
    by (rule url_match_no_rule)
  moreover have "NotFound_description \<noteq> []"
    by (simp add: NotFound_description_def)
  ultimately have "handle_request f m path = ([], Inr (Json_response not_found_envelope 404))"
    by (simp add: handle_request_def handle_user_exception_def errorhandler_def
        make_response_def not_found_error_def py_or_def not_found_envelope_def)
  then show ?thesis
    using not_found_envelope_ok by simp
qed

text \<open>
  The example of the specification: \<open>GET /nope\<close>.
\<close>

theorem unmatched_path_404_witness:
  "match_path (path_part ''/nope'') = None \<and>
   match_path (merge_slashes (path_part ''/nope'')) = None \<and>
   handle_request (Present (Parsed (JObj price_doc))) GET ''/nope'' =
     ([], Inr (Json_response not_found_envelope 404)) \<and>
   is_error_envelope not_found_envelope"
  using unmatched_path_404 [of "''/nope''" "Present (Parsed (JObj price_doc))" GET]
  by (simp add: match_path_def match_static_def path_part_def)

text \<open>
  C10. Whenever \<open>load_faq_data\<close> succeeds, \<open>GET /health\<close> returns 200 with the body
  \<open>{"status": "ok", "message": msg}\<close>, \<open>msg\<close> a string.
\<close>

theorem health_check_ok:
  assumes "snd (load_faq_data f) = Inr doc"
  shows "handle_request f GET ''/health'' = ([], Inr (Json_response healthy 200)) \<and>
         (\<exists>msg. healthy = JObj [(''status'', JStr ''ok''), (''message'', JStr msg)])"
proof -
  from assms have "f = Present (Parsed doc)"
    by (simp add: load_faq_data_Inr)
  then have "health_check f = ([], Inr (healthy, 200))"
    by (simp add: health_check_def load_faq_data_Parsed healthy_def)
  then show ?thesis
    by (simp add: handle_request_def url_match_GET [OF match_path_health] dispatch_view_def finalize_def
        make_response_def healthy_def)
qed

theorem health_check_ok_witness:
  "snd (load_faq_data (Present (Parsed (JObj price_doc)))) = Inr (JObj price_doc) \<and>
   handle_request (Present (Parsed (JObj price_doc))) GET ''/health'' =
     ([], Inr (Json_response healthy 200)) \<and>
   (\<exists>msg. healthy = JObj [(''status'', JStr ''ok''), (''message'', JStr msg)])"
  using health_check_ok [of "Present (Parsed (JObj price_doc))" "JObj price_doc"]
  by (simp add: load_faq_data_def)

end
